theory Spec2Isabelle
  imports Complex_Main
begin

section \<open>The toolkit: surfaces\<close>

text \<open>
  The repository draws through pygame. A pygame surface is kept here as the record of the
  toolkit calls that built it, so that two surfaces are equal exactly when the same calls
  built them from the same images; only the size of a surface is ever read by the code of
  the repository. \<open>Loaded n w h\<close> is a loaded image with identifier \<open>n\<close>, width \<open>w\<close>
  and height \<open>h\<close>; \<open>Surface w h\<close> is a fresh \<^verbatim>\<open>pygame.Surface((w, h))\<close>;
  \<open>Blit d s x y\<close> is \<open>d\<close> after \<^verbatim>\<open>d.blit(s, (x, y))\<close>; \<open>Fill s c\<close> is \<open>s\<close> after
  \<^verbatim>\<open>s.fill(c)\<close>; \<open>DrawUI d\<close> is \<open>d\<close> after the widget manager has drawn on it;
  \<open>Display w h\<close> is the surface of a window of that size.
\<close>

datatype surface =
    Loaded nat nat nat
  | Surface nat nat
  | Blit surface surface int int
  | Fill surface string
  | Convert surface
  | ConvertAlpha surface
  | PremulAlpha surface
  | SmoothScale surface nat nat
  | DrawUI surface
  | Display nat nat

fun get_width :: "surface \<Rightarrow> nat" where
  "get_width (Loaded n w h) = w"
| "get_width (Surface w h) = w"
| "get_width (Blit d s x y) = get_width d"
| "get_width (Fill s c) = get_width s"
| "get_width (Convert s) = get_width s"
| "get_width (ConvertAlpha s) = get_width s"
| "get_width (PremulAlpha s) = get_width s"
| "get_width (SmoothScale s w h) = w"
| "get_width (DrawUI s) = get_width s"
| "get_width (Display w h) = w"

fun get_height :: "surface \<Rightarrow> nat" where
  "get_height (Loaded n w h) = h"
| "get_height (Surface w h) = h"
| "get_height (Blit d s x y) = get_height d"
| "get_height (Fill s c) = get_height s"
| "get_height (Convert s) = get_height s"
| "get_height (ConvertAlpha s) = get_height s"
| "get_height (PremulAlpha s) = get_height s"
| "get_height (SmoothScale s w h) = h"
| "get_height (DrawUI s) = get_height s"
| "get_height (Display w h) = h"

definition get_size :: "surface \<Rightarrow> int \<times> int" where
  "get_size s = (int (get_width s), int (get_height s))"

datatype error =
    AttributeError
  | ValueError
  | PygameError
  | Exception string

text \<open>\<^verbatim>\<open>pygame.Surface(size)\<close> refuses a negative width or height.\<close>

definition pygame_Surface :: "int \<times> int \<Rightarrow> error + surface" where
  "pygame_Surface dims =
     (if fst dims < 0 \<or> snd dims < 0 then Inl PygameError
      else Inr (Surface (nat (fst dims)) (nat (snd dims))))"

text \<open>\<^verbatim>\<open>pygame.transform.smoothscale(surface, size)\<close> refuses a negative size.\<close>

definition smoothscale :: "surface \<Rightarrow> int \<times> int \<Rightarrow> error + surface" where
  "smoothscale s dims =
     (if fst dims < 0 \<or> snd dims < 0 then Inl ValueError
      else Inr (SmoothScale s (nat (fst dims)) (nat (snd dims))))"

text \<open>
  Python's \<^verbatim>\<open>range(start, stop, step)\<close>: a zero step raises \<^verbatim>\<open>ValueError\<close>, a positive
  step counts up while below \<open>stop\<close>, a negative one counts down while above it.
\<close>

function range_up :: "int \<Rightarrow> int \<Rightarrow> int \<Rightarrow> int list" where
  "range_up x stop step =
     (if 0 < step \<and> x < stop then x # range_up (x + step) stop step else [])"
  by pat_completeness auto
termination
  by (relation "measure (\<lambda>(x, stop, step). nat (stop - x))") auto

function range_down :: "int \<Rightarrow> int \<Rightarrow> int \<Rightarrow> int list" where
  "range_down x stop step =
     (if step < 0 \<and> stop < x then x # range_down (x + step) stop step else [])"
  by pat_completeness auto
termination
  by (relation "measure (\<lambda>(x, stop, step). nat (x - stop))") auto

declare range_up.simps [simp del] range_down.simps [simp del]

definition py_range :: "int \<Rightarrow> int \<Rightarrow> int \<Rightarrow> error + int list" where
  "py_range start stop step =
     (if step = 0 then Inl ValueError
      else if 0 < step then Inr (range_up start stop step)
      else Inr (range_down start stop step))"

section \<open>The tiled image widget (ui\_image\_tiled.py)\<close>

text \<open>
  The fields of \<^verbatim>\<open>UIImageTiled\<close> that its methods read and write: \<open>rect\<close> is
  \<^verbatim>\<open>self.rect.size\<close>, \<open>tile\<close> is \<^verbatim>\<open>self._tile\<close>, \<open>self_image\<close> is \<^verbatim>\<open>self.image\<close>
  and \<open>pre_clipped_image\<close> is \<^verbatim>\<open>self._pre_clipped_image\<close>. \<^verbatim>\<open>None\<close> is \<open>None\<close>.
\<close>

record ui_image_tiled =
  rect :: "int \<times> int"
  tile :: "surface option"
  original_image :: "surface option"
  self_image :: "surface option"
  pre_clipped_image :: "surface option"

text \<open>
  The inner loop \<^verbatim>\<open>for x in range(0, panel_width, tile_width)\<close> of one row, and the
  outer loop over the rows. The inner range is built anew in every pass of the outer loop,
  so its \<^verbatim>\<open>ValueError\<close> is raised only when the outer range is not empty.
\<close>

fun blit_row :: "surface \<Rightarrow> int \<Rightarrow> surface \<Rightarrow> int list \<Rightarrow> surface" where
  "blit_row t y new_surface [] = new_surface"
| "blit_row t y new_surface (x # xs) = blit_row t y (Blit new_surface t x y) xs"

fun blit_rows :: "surface \<Rightarrow> int \<Rightarrow> int \<Rightarrow> surface \<Rightarrow> int list \<Rightarrow> error + surface" where
  "blit_rows t panel_width tile_width new_surface [] = Inr new_surface"
| "blit_rows t panel_width tile_width new_surface (y # ys) =
     (case py_range 0 panel_width tile_width of
        Inl e \<Rightarrow> Inl e
      | Inr xs \<Rightarrow> blit_rows t panel_width tile_width (blit_row t y new_surface xs) ys)"

definition create_tiled_surface :: "ui_image_tiled \<Rightarrow> error + surface option" where
  "create_tiled_surface self =
     (case tile self of
        None \<Rightarrow> Inr None
      | Some t \<Rightarrow>
          let panel_width = fst (rect self); panel_height = snd (rect self);
              tile_width = int (get_height t); tile_height = int (get_width t)
          in if panel_width = tile_width \<and> panel_height = tile_height then Inr (Some t)
             else
               (case pygame_Surface (panel_width, panel_height) of
                  Inl e \<Rightarrow> Inl e
                | Inr new_surface \<Rightarrow>
                    (case py_range 0 panel_height tile_height of
                       Inl e \<Rightarrow> Inl e
                     | Inr ys \<Rightarrow>
                         (case blit_rows t panel_width tile_width new_surface ys of
                            Inl e \<Rightarrow> Inl e
                          | Inr s \<Rightarrow> Inr (Some s)))))"

text \<open>
  \<^verbatim>\<open>UIElement.set_image\<close> of the toolkit, for an element that its container does not
  clip: the surface becomes the element's image.
\<close>

definition set_image :: "surface \<Rightarrow> ui_image_tiled \<Rightarrow> ui_image_tiled" where
  "set_image new_image self = self\<lparr>self_image := Some new_image, pre_clipped_image := None\<rparr>"

text \<open>
  \<^verbatim>\<open>UIImageTiled.__init__\<close>. The base class constructor leaves the widget with its
  rectangle and no image. \<^verbatim>\<open>image_surface.convert_alpha()\<close> on \<^verbatim>\<open>None\<close> raises
  \<^verbatim>\<open>AttributeError\<close>.
\<close>

definition UIImageTiled_init :: "int \<times> int \<Rightarrow> surface option \<Rightarrow> error + ui_image_tiled" where
  "UIImageTiled_init relative_rect image_surface =
     (let self = \<lparr>rect = relative_rect, tile = image_surface, original_image = None,
                  self_image = None, pre_clipped_image = None\<rparr>
      in case create_tiled_surface self of
           Inl e \<Rightarrow> Inl e
         | Inr None \<Rightarrow> Inl AttributeError
         | Inr (Some tiled) \<Rightarrow>
             let image_surface = PremulAlpha (ConvertAlpha tiled)
             in if int (get_width image_surface) \<noteq> fst (rect self) \<or>
                   int (get_height image_surface) \<noteq> snd (rect self)
                then (case smoothscale image_surface (rect self) of
                        Inl e \<Rightarrow> Inl e
                      | Inr scaled \<Rightarrow>
                          Inr (set_image scaled (self\<lparr>original_image := Some image_surface\<rparr>)))
                else Inr (set_image image_surface self))"

text \<open>
  \<^verbatim>\<open>UIImageTiled.set_dimensions\<close>. The base class method stores the new size in
  \<^verbatim>\<open>self.rect\<close>. The branch for \<^verbatim>\<open>self.original_image is None\<close> is kept as written,
  although \<^verbatim>\<open>premul_alpha_surface\<close> never returns \<^verbatim>\<open>None\<close>. The image is installed
  without a rescale: the call of \<^verbatim>\<open>smoothscale\<close> is commented out in the source.
\<close>

definition set_dimensions :: "int \<times> int \<Rightarrow> ui_image_tiled \<Rightarrow> error + ui_image_tiled" where
  "set_dimensions dimensions self0 =
     (let self = self0\<lparr>rect := dimensions\<rparr>
      in case self_image self of
           None \<Rightarrow> Inl AttributeError
         | Some img \<Rightarrow>
             if rect self \<noteq> get_size img
             then (case create_tiled_surface self of
                     Inl e \<Rightarrow> Inl e
                   | Inr None \<Rightarrow> Inl AttributeError
                   | Inr (Some tiled) \<Rightarrow>
                       let self = self\<lparr>original_image := Some (PremulAlpha (ConvertAlpha tiled))\<rparr>;
                           self = (case original_image self of
                                     None \<Rightarrow>
                                       (case pre_clipped_image self of
                                          Some p \<Rightarrow> self\<lparr>original_image := Some p\<rparr>
                                        | None \<Rightarrow> self\<lparr>original_image := self_image self\<rparr>)
                                   | Some _ \<Rightarrow> self)
                       in (case original_image self of
                             None \<Rightarrow> Inl AttributeError
                           | Some s \<Rightarrow> Inr (set_image s self)))
             else Inr self)"

text \<open>
  The blits of the claims, as a list of offsets: \<open>blit_offsets t s ps\<close> is \<open>s\<close> after the
  tile \<open>t\<close> has been blitted at every offset of \<open>ps\<close>, in order. \<open>spec_grid_offsets\<close>
  follows the words of the specification: \<open>x\<close> steps by the tile's width while below
  the target's width, \<open>y\<close> by the tile's height while below the target's height, row by row.
\<close>

fun blit_offsets :: "surface \<Rightarrow> surface \<Rightarrow> (int \<times> int) list \<Rightarrow> surface" where
  "blit_offsets t s [] = s"
| "blit_offsets t s (p # ps) = blit_offsets t (Blit s t (fst p) (snd p)) ps"

definition spec_grid_offsets :: "int \<times> int \<Rightarrow> surface \<Rightarrow> (int \<times> int) list" where
  "spec_grid_offsets target t =
     concat (map (\<lambda>y. map (\<lambda>x. (x, y)) (range_up 0 (fst target) (int (get_width t))))
                 (range_up 0 (snd target) (int (get_height t))))"

text \<open>A widget built at one size and then resized: what \<^verbatim>\<open>self.image\<close> is afterwards.\<close>

definition image_after_resize ::
  "int \<times> int \<Rightarrow> surface option \<Rightarrow> int \<times> int \<Rightarrow> error + surface option" where
  "image_after_resize relative_rect image_surface dimensions =
     (case UIImageTiled_init relative_rect image_surface of
        Inl e \<Rightarrow> Inl e
      | Inr self \<Rightarrow>
          (case set_dimensions dimensions self of
             Inl e \<Rightarrow> Inl e
           | Inr self' \<Rightarrow> Inr (self_image self')))"

definition image_of_fresh :: "int \<times> int \<Rightarrow> surface option \<Rightarrow> error + surface option" where
  "image_of_fresh relative_rect image_surface =
     (case UIImageTiled_init relative_rect image_surface of
        Inl e \<Rightarrow> Inl e
      | Inr self \<Rightarrow> Inr (self_image self))"

section \<open>The application scaffold (app/gui\_app.py)\<close>

text \<open>
  An event of the pygame queue, by its type: the window was closed, the window was resized
  (to the width and height the event carries), or anything else.
\<close>

datatype event = QUIT | WINDOWRESIZED nat nat | OTHER nat

text \<open>
  The calls that leave the application object and that the claims speak of are kept in a
  trace, in the order in which they are made.
\<close>

datatype call =
    SetCaption string
  | OnShutdown
  | HandleEvent event
  | ProcessEvents event
  | ManagerUpdate real
  | Update real
  | DisplayUpdate

text \<open>
  A panel of the toolkit: the four numbers given to \<^verbatim>\<open>pygame.Rect\<close>, the starting layer,
  the margins and the anchors. An anchor names an edge or, for \<^verbatim>\<open>top_target\<close> and
  \<^verbatim>\<open>bottom_target\<close>, another panel. Python's numbers (\<^verbatim>\<open>int\<close> and \<^verbatim>\<open>float\<close>) are
  taken as exact real numbers: rounding is not modelled.
\<close>

datatype anchor = Edge string | Target ui_panel
  and ui_panel = UIPanel "real \<times> real \<times> real \<times> real" nat "int list option" "(string \<times> anchor) list"

fun panel_height :: "ui_panel \<Rightarrow> real" where
  "panel_height (UIPanel r layer margins anchors) = snd (snd (snd r))"

text \<open>The widget manager: its window resolution and the elements registered with it.\<close>

record ui_manager_state =
  window_resolution :: "int \<times> int"
  elements :: "ui_panel list"

definition UIManager :: "int \<times> int \<Rightarrow> ui_manager_state" where
  "UIManager resolution = \<lparr>window_resolution = resolution, elements = []\<rparr>"

definition set_window_resolution :: "int \<times> int \<Rightarrow> ui_manager_state \<Rightarrow> ui_manager_state" where
  "set_window_resolution resolution m = m\<lparr>window_resolution := resolution\<rparr>"

text \<open>
  The fields of \<^verbatim>\<open>GuiApp\<close>. \<open>update_objects\<close> holds the identifiers of the registered
  objects, \<open>user\<close> is whatever a subclass adds, \<open>calls\<close> is the trace.
\<close>

record 'u gui_app =
  framerate :: nat
  title :: "string option"
  root_window_surface :: surface
  background_surface :: surface
  ui_manager :: ui_manager_state
  is_running :: bool
  update_objects :: "nat list"
  user :: 'u
  calls :: "call list"

text \<open>
  The methods a subclass overrides. Each one sees the event and the application and gives
  back the subclass's own state and the running flag, the two things it may change.
  The base class versions change nothing.
\<close>

record 'u hooks =
  handle_event :: "event \<Rightarrow> 'u gui_app \<Rightarrow> 'u \<times> bool"
  on_shutdown :: "'u gui_app \<Rightarrow> 'u \<times> bool"
  update :: "real \<Rightarrow> 'u gui_app \<Rightarrow> 'u \<times> bool"

definition base_hooks :: "'u hooks" where
  "base_hooks = \<lparr>handle_event = (\<lambda>event self. (user self, is_running self)),
                 on_shutdown = (\<lambda>self. (user self, is_running self)),
                 update = (\<lambda>time_delta self. (user self, is_running self))\<rparr>"

definition run_hook :: "call \<Rightarrow> ('u gui_app \<Rightarrow> 'u \<times> bool) \<Rightarrow> 'u gui_app \<Rightarrow> 'u gui_app" where
  "run_hook c h self =
     (let self = self\<lparr>calls := calls self @ [c]\<rparr>
      in self\<lparr>user := fst (h self), is_running := snd (h self)\<rparr>)"

text \<open>
  \<^verbatim>\<open>pygame.display.set_mode(size, flags)\<close>: a width or height of zero stands for that of
  the desktop.
\<close>

definition set_mode :: "nat \<times> nat \<Rightarrow> nat \<times> nat \<Rightarrow> nat \<Rightarrow> surface" where
  "set_mode desktop window_size flags =
     Display (if fst window_size = 0 then fst desktop else fst window_size)
             (if snd window_size = 0 then snd desktop else snd window_size)"

definition RESIZABLE :: nat where
  "RESIZABLE = 16"

text \<open>The property \<^verbatim>\<open>GuiApp.size\<close>.\<close>

definition size_of_app :: "('u, 'x) gui_app_scheme \<Rightarrow> int \<times> int" where
  "size_of_app self = get_size (root_window_surface self)"

text \<open>The background: \<^verbatim>\<open>pygame.Surface(self.size).convert()\<close>, filled.\<close>

definition new_background :: "surface \<Rightarrow> surface" where
  "new_background window =
     Fill (Convert (Surface (get_width window) (get_height window))) ''#303030''"

text \<open>
  \<^verbatim>\<open>GuiApp.__init__\<close>. \<open>desktop\<close> is the size of the desktop, which \<^verbatim>\<open>set_mode\<close>
  falls back on. An empty or missing title sets no caption.
\<close>

definition GuiApp_init ::
  "nat \<times> nat \<Rightarrow> nat \<times> nat \<Rightarrow> nat \<Rightarrow> string option \<Rightarrow> bool \<Rightarrow> 'u \<Rightarrow> 'u gui_app" where
  "GuiApp_init desktop window_size framerate' title' resizeable u =
     (let flags = (if resizeable then RESIZABLE else 0);
          window = set_mode desktop window_size flags
      in \<lparr>framerate = framerate', title = title',
          root_window_surface = window,
          background_surface = new_background window,
          ui_manager = UIManager (get_size window),
          is_running = False, update_objects = [], user = u,
          calls = (case title' of
                     None \<Rightarrow> []
                   | Some t \<Rightarrow> if t = [] then [] else [SetCaption t])\<rparr>)"

definition add_update_object :: "nat \<Rightarrow> 'u gui_app \<Rightarrow> 'u gui_app" where
  "add_update_object update_object self =
     self\<lparr>update_objects := update_objects self @ [update_object]\<rparr>"

text \<open>
  \<^verbatim>\<open>pygame.event.get()\<close> empties the queue. The toolkit resizes the window's surface
  while it does so: from then on the surface has the size of the last resize of the batch.
\<close>

fun event_get :: "event list \<Rightarrow> surface \<Rightarrow> surface" where
  "event_get [] d = d"
| "event_get (WINDOWRESIZED w h # es) d = event_get es (Display w h)"
| "event_get (e # es) d = event_get es d"

text \<open>The body of \<^verbatim>\<open>for event in pygame.event.get()\<close>, for one event.\<close>

definition loop_body :: "'u hooks \<Rightarrow> event \<Rightarrow> 'u gui_app \<Rightarrow> 'u gui_app" where
  "loop_body hooks event self =
     (let self =
            (case event of
               QUIT \<Rightarrow> (run_hook OnShutdown (on_shutdown hooks) self)\<lparr>is_running := False\<rparr>
             | WINDOWRESIZED w h \<Rightarrow>
                 (let self = self\<lparr>background_surface :=
                                   new_background (root_window_surface self)\<rparr>
                  in self\<lparr>ui_manager :=
                            set_window_resolution (size_of_app self) (ui_manager self)\<rparr>)
             | OTHER n \<Rightarrow> run_hook (HandleEvent event) (handle_event hooks event) self)
      in if is_running self then self\<lparr>calls := calls self @ [ProcessEvents event]\<rparr> else self)"

fun for_each_event :: "'u hooks \<Rightarrow> event list \<Rightarrow> 'u gui_app \<Rightarrow> 'u gui_app" where
  "for_each_event hooks [] self = self"
| "for_each_event hooks (event # events) self =
     for_each_event hooks events (loop_body hooks event self)"

text \<open>
  \<^verbatim>\<open>GuiApp._main_loop\<close>: one pass, given the milliseconds \<^verbatim>\<open>clock.tick\<close> returns and
  the events that are pending.
\<close>

definition main_loop :: "'u hooks \<Rightarrow> nat \<Rightarrow> event list \<Rightarrow> 'u gui_app \<Rightarrow> 'u gui_app" where
  "main_loop hooks ticks events self =
     (let time_delta = real ticks / 1000;
          self = self\<lparr>root_window_surface := event_get events (root_window_surface self)\<rparr>;
          self = for_each_event hooks events self
      in if \<not> is_running self then self
         else
           (let self = self\<lparr>calls := calls self @ [ManagerUpdate time_delta]\<rparr>;
                self = run_hook (Update time_delta) (update hooks time_delta) self;
                self = self\<lparr>root_window_surface :=
                         DrawUI (Blit (root_window_surface self) (background_surface self) 0 0)\<rparr>
            in self\<lparr>calls := calls self @ [DisplayUpdate]\<rparr>))"

text \<open>
  \<^verbatim>\<open>GuiApp.run\<close>. The loop \<^verbatim>\<open>while self.is_running\<close> may go on for ever, which is
  the value \<open>None\<close>. \<open>env i\<close> is what the \<open>i\<close>-th pass finds: the milliseconds of
  the clock and the pending events.
\<close>

partial_function (option) run_loop ::
  "'u hooks \<Rightarrow> (nat \<Rightarrow> nat \<times> event list) \<Rightarrow> nat \<Rightarrow> 'u gui_app \<Rightarrow> 'u gui_app option" where
  "run_loop hooks env i self =
     (if is_running self
      then run_loop hooks env (Suc i) (main_loop hooks (fst (env i)) (snd (env i)) self)
      else Some self)"

definition run :: "'u hooks \<Rightarrow> (nat \<Rightarrow> nat \<times> event list) \<Rightarrow> 'u gui_app \<Rightarrow> 'u gui_app option" where
  "run hooks env self =
     (if is_running self then Some self
      else run_loop hooks env 0 (self\<lparr>is_running := True\<rparr>))"

text \<open>The application after \<open>n\<close> passes of the main loop, the first of them pass \<open>i\<close>.\<close>

fun passes :: "'u hooks \<Rightarrow> (nat \<Rightarrow> nat \<times> event list) \<Rightarrow> nat \<Rightarrow> nat \<Rightarrow> 'u gui_app \<Rightarrow> 'u gui_app" where
  "passes hooks env i 0 self = self"
| "passes hooks env i (Suc n) self =
     passes hooks env (Suc i) n (main_loop hooks (fst (env i)) (snd (env i)) self)"

text \<open>
  The invariant of the scaffold: the background and the widget manager have the size of
  the window's surface.
\<close>

definition sizes_agree :: "('u, 'x) gui_app_scheme \<Rightarrow> bool" where
  "sizes_agree self \<longleftrightarrow>
     get_size (background_surface self) = get_size (root_window_surface self) \<and>
     window_resolution (ui_manager self) = get_size (root_window_surface self)"

section \<open>The three-panel layout (app/ThreePanelApp.py)\<close>

text \<open>
  \<^verbatim>\<open>ThreePanelApp\<close> adds its own fields to those of \<^verbatim>\<open>GuiApp\<close>. A field that has
  not been assigned yet is \<open>None\<close>.
\<close>

record 'u three_panel_app = "'u gui_app" +
  margins_attr :: "int list option"
  top_height_attr :: "real option"
  bottom_height_attr :: "real option"
  top_panel :: "ui_panel option"
  bottom_panel :: "ui_panel option"
  middle_panel :: "ui_panel option"

text \<open>Creating a panel registers it with the widget manager.\<close>

definition register :: "ui_panel \<Rightarrow> ui_manager_state \<Rightarrow> ui_manager_state" where
  "register p m = m\<lparr>elements := elements m @ [p]\<rparr>"

text \<open>
  \<^verbatim>\<open>ThreePanelApp.__init__\<close>. The result is the exception raised, if any, and the
  object as it is at that moment. The first arguments are those of the base class.
\<close>

definition ThreePanelApp_init ::
  "nat \<times> nat \<Rightarrow> nat \<times> nat \<Rightarrow> nat \<Rightarrow> string option \<Rightarrow> bool \<Rightarrow> 'u \<Rightarrow>
   real \<Rightarrow> real \<Rightarrow> bool \<Rightarrow> int list option \<Rightarrow> error option \<times> 'u three_panel_app" where
  "ThreePanelApp_init desktop window_size framerate' title' resizeable u
       top_height bottom_height heights_as_fractions margins =
     (let self = gui_app.extend (GuiApp_init desktop window_size framerate' title' resizeable u)
                   (three_panel_app.fields None None None None None None)
      in if heights_as_fractions \<and>
            (top_height > 1 \<or> bottom_height > 1 \<or> top_height + bottom_height > 1)
         then (Some (Exception ''Panels will not fit. Total is > 100%.''), self)
         else if \<not> heights_as_fractions \<and>
                 top_height + bottom_height > real (get_height (root_window_surface self))
         then (Some (Exception ''Panels will not fit. Total is > window height.''), self)
         else
           (let self = self\<lparr>margins_attr := margins, top_height_attr := Some top_height,
                            bottom_height_attr := Some bottom_height\<rparr>;
                window_height = real (get_height (root_window_surface self));
                window_width = real (get_width (root_window_surface self));
                top_height' = (if heights_as_fractions then window_height * top_height
                               else top_height);
                bottom_height' = (if heights_as_fractions then window_height * bottom_height
                                  else bottom_height);
                middle_height = window_height - top_height' - bottom_height';
                layer = 1
            in if middle_height \<le> 0
               then (Some (Exception ''Panels will not fit. No room for middle panel.''), self)
               else
                 (let top_panel' = UIPanel (0, 0, window_width, top_height') layer margins
                              [(''top'', Edge ''top''), (''left'', Edge ''left''),
                               (''bottom'', Edge ''top''), (''right'', Edge ''right'')];
                      self = self\<lparr>ui_manager := register top_panel' (ui_manager self),
                                  top_panel := Some top_panel'\<rparr>;
                      bottom_panel' = UIPanel (0, - bottom_height', window_width, bottom_height')
                                 layer margins
                                 [(''top'', Edge ''bottom''), (''left'', Edge ''left''),
                                  (''bottom'', Edge ''bottom''), (''right'', Edge ''right'')];
                      self = self\<lparr>ui_manager := register bottom_panel' (ui_manager self),
                                  bottom_panel := Some bottom_panel'\<rparr>;
                      middle_panel' = UIPanel (0, 0, window_width,
                                        window_height - (top_height' + bottom_height'))
                                 layer margins
                                 [(''top_target'', Target top_panel'),
                                  (''bottom_target'', Target bottom_panel'),
                                  (''top'', Edge ''top''), (''left'', Edge ''left''),
                                  (''bottom'', Edge ''bottom''), (''right'', Edge ''right'')];
                      self = self\<lparr>ui_manager := register middle_panel' (ui_manager self),
                                  middle_panel := Some middle_panel'\<rparr>
                  in (None, self))))"



text \<open>The height of the window that \<^verbatim>\<open>set_mode\<close> opens.\<close>

definition window_height_of :: "nat \<times> nat \<Rightarrow> nat \<times> nat \<Rightarrow> real" where
  "window_height_of desktop window_size =
     real (if snd window_size = 0 then snd desktop else snd window_size)"

section \<open>Facts about the tiled image widget\<close>

lemma blit_row_size:
  "get_width (blit_row t y s xs) = get_width s \<and> get_height (blit_row t y s xs) = get_height s"
  by (induction xs arbitrary: s) auto

lemma blit_rows_size:
  "tile_width \<noteq> 0 \<Longrightarrow>
   \<exists>s'. blit_rows t panel_width tile_width s ys = Inr s' \<and>
        get_width s' = get_width s \<and> get_height s' = get_height s"
proof (induction ys arbitrary: s)
  case Nil
  then show ?case by simp
next
  case (Cons y ys)
  obtain xs where xs: "py_range 0 panel_width tile_width = Inr xs"
    using Cons.prems by (cases "0 < tile_width") (auto simp: py_range_def)
  from Cons.IH [OF Cons.prems, of "blit_row t y s xs"] xs show ?case
    by (auto simp: blit_row_size)
qed

lemma create_tiled_surface_new:
  assumes "tile self = Some t" "0 < get_width t" "0 < get_height t"
    and "0 \<le> fst (rect self)" "0 \<le> snd (rect self)"
    and "\<not> (fst (rect self) = int (get_height t) \<and> snd (rect self) = int (get_width t))"
  shows "\<exists>s. create_tiled_surface self = Inr (Some s) \<and> get_size s = rect self"
proof -
  let ?new = "Surface (nat (fst (rect self))) (nat (snd (rect self)))"
  have "int (get_height t) \<noteq> 0" using assms(3) by simp
  from blit_rows_size [OF this, of t "fst (rect self)" ?new
      "range_up 0 (snd (rect self)) (int (get_width t))"]
  obtain s' where s': "blit_rows t (fst (rect self)) (int (get_height t)) ?new
      (range_up 0 (snd (rect self)) (int (get_width t))) = Inr s'"
    "get_width s' = get_width ?new" "get_height s' = get_height ?new"
    by blast
  have "create_tiled_surface self = Inr (Some s')"
    using assms s'(1) by (auto simp: create_tiled_surface_def pygame_Surface_def py_range_def Let_def)
  moreover have "get_size s' = rect self"
    using s'(2,3) assms(4,5) by (simp add: get_size_def prod_eq_iff)
  ultimately show ?thesis by blast
qed

text \<open>
  Claim C1: a tile of size (W, H) tiled into a target of exactly that size is returned
  itself, with no replication pass and no new surface. The source reads the tile's height
  into \<^verbatim>\<open>tile_width\<close> and its width into \<^verbatim>\<open>tile_height\<close>, so for a tile that is
  not square the comparison fails: with a tile of 2 by 3 and a target of 2 by 3 a new
  surface is made and the tile is blitted on it twice.
\<close>

theorem create_tiled_surface_same_size_replicates:
  "get_size (Loaded 0 2 3) = (2, 3) \<and>
   create_tiled_surface \<lparr>rect = (2, 3), tile = Some (Loaded 0 2 3), original_image = None,
       self_image = None, pre_clipped_image = None\<rparr> =
     Inr (Some (blit_offsets (Loaded 0 2 3) (Surface 2 3) [(0, 0), (0, 2)])) \<and>
   create_tiled_surface \<lparr>rect = (2, 3), tile = Some (Loaded 0 2 3), original_image = None,
       self_image = None, pre_clipped_image = None\<rparr> \<noteq> Inr (Some (Loaded 0 2 3))"
  by (simp add: create_tiled_surface_def pygame_Surface_def py_range_def range_up.simps
      get_size_def)

text \<open>
  Claim C2: for a target whose size differs from the tile's, a new surface of the target's
  size is made and the tile is blitted at the offsets whose \<open>x\<close> steps by the tile's
  width and whose \<open>y\<close> steps by the tile's height. Because of the same exchange of width
  and height, the source steps \<open>x\<close> by the tile's height and \<open>y\<close> by its width: with a
  tile of 2 by 3 and a target of 4 by 6 the blits are at \<open>x\<close> = 0, 3 and \<open>y\<close> = 0, 2, 4,
  where the specification has \<open>x\<close> = 0, 2 and \<open>y\<close> = 0, 3.
\<close>

theorem create_tiled_surface_steps_swapped:
  "create_tiled_surface \<lparr>rect = (4, 6), tile = Some (Loaded 0 2 3), original_image = None,
       self_image = None, pre_clipped_image = None\<rparr> =
     Inr (Some (blit_offsets (Loaded 0 2 3) (Surface 4 6)
                  [(0, 0), (3, 0), (0, 2), (3, 2), (0, 4), (3, 4)])) \<and>
   spec_grid_offsets (4, 6) (Loaded 0 2 3) = [(0, 0), (2, 0), (0, 3), (2, 3)]"
  by (simp add: create_tiled_surface_def pygame_Surface_def py_range_def range_up.simps
      spec_grid_offsets_def)

text \<open>
  Claim C5: for a tile of size (w, h), with \<open>w\<close> and \<open>h\<close> positive as the data model
  of the specification requires, and a target (W, H) with \<open>W > w\<close> and \<open>H > h\<close>, the
  image the widget installs has size (W, H), at construction and after
  \<^verbatim>\<open>set_dimensions\<close>: the composed surface already has that size and is used unscaled.
\<close>

theorem tiled_image_size_of_larger_target:
  assumes "get_width t = w" "get_height t = h" "0 < w" "0 < h" "int w < W" "int h < H"
    and "tile self0 = Some t" "self_image self0 = Some img0"
  shows "(\<exists>tiled self. create_tiled_surface (self0\<lparr>rect := (W, H)\<rparr>) = Inr (Some tiled) \<and>
            get_size tiled = (W, H) \<and>
            UIImageTiled_init (W, H) (Some t) = Inr self \<and>
            self_image self = Some (PremulAlpha (ConvertAlpha tiled)) \<and>
            get_size (PremulAlpha (ConvertAlpha tiled)) = (W, H)) \<and>
         (\<exists>self img. set_dimensions (W, H) self0 = Inr self \<and> rect self = (W, H) \<and>
            self_image self = Some img \<and> get_size img = (W, H))"
proof -
  let ?fresh = "\<lparr>rect = (W, H), tile = Some t, original_image = None, self_image = None,
                  pre_clipped_image = None\<rparr>"
  have ne: "\<not> (W = int (get_height t) \<and> H = int (get_width t))"
    using assms(1-6) by auto
  obtain tiled where tiled: "create_tiled_surface ?fresh = Inr (Some tiled)"
      "get_size tiled = (W, H)"
    using create_tiled_surface_new [of ?fresh t] assms(1-6) ne by auto
  have same: "create_tiled_surface (self0\<lparr>rect := (W, H)\<rparr>) = create_tiled_surface ?fresh"
    using assms(7) by (simp add: create_tiled_surface_def)
  have init: "UIImageTiled_init (W, H) (Some t) =
      Inr (set_image (PremulAlpha (ConvertAlpha tiled)) ?fresh)"
    using tiled by (simp add: UIImageTiled_init_def Let_def get_size_def)
  have first: "\<exists>tiled self. create_tiled_surface (self0\<lparr>rect := (W, H)\<rparr>) = Inr (Some tiled) \<and>
            get_size tiled = (W, H) \<and>
            UIImageTiled_init (W, H) (Some t) = Inr self \<and>
            self_image self = Some (PremulAlpha (ConvertAlpha tiled)) \<and>
            get_size (PremulAlpha (ConvertAlpha tiled)) = (W, H)"
    using tiled same init by (auto simp: set_image_def get_size_def)
  have second: "\<exists>self img. set_dimensions (W, H) self0 = Inr self \<and> rect self = (W, H) \<and>
            self_image self = Some img \<and> get_size img = (W, H)"
  proof (cases "(W, H) = get_size img0")
    case True
    then show ?thesis using assms(8) by (simp add: set_dimensions_def Let_def)
  next
    case False
    then show ?thesis
      using assms(8) tiled same
      by (simp add: set_dimensions_def Let_def set_image_def get_size_def)
  qed
  from first second show ?thesis by blast
qed

theorem tiled_image_size_of_larger_target_witness:
  "UIImageTiled_init (4, 6) (Some (Loaded 0 2 3)) =
     Inr \<lparr>rect = (4, 6), tile = Some (Loaded 0 2 3), original_image = None,
          self_image = Some (PremulAlpha (ConvertAlpha (blit_offsets (Loaded 0 2 3) (Surface 4 6)
                  [(0, 0), (3, 0), (0, 2), (3, 2), (0, 4), (3, 4)]))),
          pre_clipped_image = None\<rparr> \<and>
   (\<exists>self img. set_dimensions (4, 6)
        \<lparr>rect = (3, 2), tile = Some (Loaded 0 2 3),
         original_image = Some (PremulAlpha (ConvertAlpha (Loaded 0 2 3))),
         self_image = Some (SmoothScale (PremulAlpha (ConvertAlpha (Loaded 0 2 3))) 3 2),
         pre_clipped_image = None\<rparr> = Inr self \<and>
      rect self = (4, 6) \<and> self_image self = Some img \<and> get_size img = (4, 6))"
proof -
  let ?w = "\<lparr>rect = (3, 2), tile = Some (Loaded 0 2 3),
         original_image = Some (PremulAlpha (ConvertAlpha (Loaded 0 2 3))),
         self_image = Some (SmoothScale (PremulAlpha (ConvertAlpha (Loaded 0 2 3))) 3 2),
         pre_clipped_image = None\<rparr>"
  have h: "get_width (Loaded 0 2 3) = 2" "get_height (Loaded 0 2 3) = 3" "(0::nat) < 2"
    "(0::nat) < 3" "int 2 < 4" "int 3 < 6" "tile ?w = Some (Loaded 0 2 3)"
    "self_image ?w = Some (SmoothScale (PremulAlpha (ConvertAlpha (Loaded 0 2 3))) 3 2)"
    by simp_all
  have init: "UIImageTiled_init (4, 6) (Some (Loaded 0 2 3)) =
     Inr \<lparr>rect = (4, 6), tile = Some (Loaded 0 2 3), original_image = None,
          self_image = Some (PremulAlpha (ConvertAlpha (blit_offsets (Loaded 0 2 3) (Surface 4 6)
                  [(0, 0), (3, 0), (0, 2), (3, 2), (0, 4), (3, 4)]))),
          pre_clipped_image = None\<rparr>"
    by (simp add: UIImageTiled_init_def create_tiled_surface_def pygame_Surface_def py_range_def
      range_up.simps set_image_def Let_def)
  from tiled_image_size_of_larger_target [OF h] init show ?thesis by blast
qed

text \<open>
  Away from the transposed size of the tile, a resize installs the image that a fresh
  construction at the new size installs.
\<close>

lemma set_dimensions_agrees_off_transposed:
  assumes "tile self0 = Some t" "self_image self0 = Some img0" "0 < get_width t"
    "0 < get_height t" "0 \<le> W" "0 \<le> H" "(W, H) \<noteq> get_size img0"
    and "\<not> (W = int (get_height t) \<and> H = int (get_width t))"
  shows "map_sum id self_image (set_dimensions (W, H) self0) =
         map_sum id self_image (UIImageTiled_init (W, H) (Some t))"
proof -
  let ?fresh = "\<lparr>rect = (W, H), tile = Some t, original_image = None, self_image = None,
                  pre_clipped_image = None\<rparr>"
  obtain tiled where tiled: "create_tiled_surface ?fresh = Inr (Some tiled)"
      "get_size tiled = (W, H)"
    using create_tiled_surface_new [of ?fresh t] assms by auto
  have same: "create_tiled_surface (self0\<lparr>rect := (W, H)\<rparr>) = create_tiled_surface ?fresh"
    using assms(1) by (simp add: create_tiled_surface_def)
  show ?thesis
    using assms(2,7) tiled same
    by (simp add: set_dimensions_def UIImageTiled_init_def Let_def set_image_def get_size_def)
qed

text \<open>
  Claim C6: after a resize the installed image equals what a fresh construction at the new
  size installs. \<^verbatim>\<open>set_dimensions\<close> installs the composed surface without the rescale that
  \<^verbatim>\<open>__init__\<close> applies, and \<^verbatim>\<open>create_tiled_surface\<close> returns the tile itself when the
  target has the tile's transposed size: a widget with a tile of 2 by 3 that is resized to
  3 by 2 shows the tile at 2 by 3, where a fresh widget shows it rescaled to 3 by 2.
\<close>

theorem resize_to_transposed_size_not_rescaled:
  "image_after_resize (4, 4) (Some (Loaded 0 2 3)) (3, 2) =
     Inr (Some (PremulAlpha (ConvertAlpha (Loaded 0 2 3)))) \<and>
   get_size (PremulAlpha (ConvertAlpha (Loaded 0 2 3))) = (2, 3) \<and>
   image_of_fresh (3, 2) (Some (Loaded 0 2 3)) =
     Inr (Some (SmoothScale (PremulAlpha (ConvertAlpha (Loaded 0 2 3))) 3 2))"
  by (simp add: image_after_resize_def image_of_fresh_def UIImageTiled_init_def
      set_dimensions_def create_tiled_surface_def pygame_Surface_def py_range_def
      range_up.simps smoothscale_def set_image_def get_size_def Let_def)

section \<open>Facts about the three-panel layout\<close>


lemma root_height:
  "get_height (root_window_surface (GuiApp_init d ws fr ti rs u)) =
     (if snd ws = 0 then snd d else snd ws)"
  by (simp add: GuiApp_init_def set_mode_def Let_def)







text \<open>
  Claim C9: a window of height 800 with fractional heights 0.25 and 0.10 is accepted, and
  the panels are 200, 80 and 520 high, which add up to 800.
\<close>

theorem three_panel_example_heights:
  "fst (ThreePanelApp_init d (w, 800) fr ti rs u 0.25 0.10 True m) = None \<and>
   map (map_option panel_height)
     [top_panel (snd (ThreePanelApp_init d (w, 800) fr ti rs u 0.25 0.10 True m)),
      bottom_panel (snd (ThreePanelApp_init d (w, 800) fr ti rs u 0.25 0.10 True m)),
      middle_panel (snd (ThreePanelApp_init d (w, 800) fr ti rs u 0.25 0.10 True m))] =
     [Some 200, Some 80, Some 520] \<and>
   (200::real) + 80 + 520 = window_height_of d (w, 800)"
  by (simp add: ThreePanelApp_init_def Let_def root_height gui_app.defs
      three_panel_app.defs register_def window_height_of_def)

section \<open>Facts about the application scaffold\<close>



lemma run_hook_sizes:
  "root_window_surface (run_hook c h s) = root_window_surface s"
  "background_surface (run_hook c h s) = background_surface s"
  "ui_manager (run_hook c h s) = ui_manager s"
  by (simp_all add: run_hook_def Let_def)






lemma run_loop_Some:
  fixes s :: "'u gui_app"
  assumes "run_loop hooks env i s = Some y"
  shows "\<exists>n. y = passes hooks env i n s \<and> \<not> is_running y \<and>
       (\<forall>k<n. is_running (passes hooks env i k s))"
proof -
  have step: "\<exists>n. r = passes h e j n t \<and> \<not> is_running r \<and>
       (\<forall>k<n. is_running (passes h e j k t))"
    if IH: "\<And>h e j t r. f h e j t = Some r \<Longrightarrow>
         \<exists>n. r = passes h e j n t \<and> \<not> is_running r \<and>
             (\<forall>k<n. is_running (passes h e j k t))"
      and eq: "(if is_running t
                then f h e (Suc j) (main_loop h (fst (e j)) (snd (e j)) t)
                else Some t) = Some r"
    for f h e j r and t :: "'u gui_app"
  proof (cases "is_running t")
    case False
    with eq have "r = passes h e j 0 t" "\<not> is_running r" by simp_all
    then show ?thesis by blast
  next
    case True
    let ?next = "main_loop h (fst (e j)) (snd (e j)) t"
    from True eq have "f h e (Suc j) ?next = Some r" by simp
    from IH [OF this] obtain n where n: "r = passes h e (Suc j) n ?next"
      "\<not> is_running r" "\<forall>k<n. is_running (passes h e (Suc j) k ?next)"
      by blast
    have "\<forall>k<Suc n. is_running (passes h e j k t)"
    proof (intro allI impI)
      fix k assume "k < Suc n"
      then show "is_running (passes h e j k t)"
        using True n(3) by (cases k) simp_all
    qed
    moreover have "r = passes h e j (Suc n) t" using n(1) by simp
    ultimately show ?thesis using n(2) by blast
  qed
  show ?thesis
    by (rule run_loop.raw_induct
        [where P = "\<lambda>h e j t r. \<exists>n. r = passes h e j n t \<and> \<not> is_running r \<and>
            (\<forall>k<n. is_running (passes h e j k t))", OF step assms])
qed

lemma run_loop_passes:
  "(\<forall>k<n. is_running (passes hooks env i k s)) \<Longrightarrow> \<not> is_running (passes hooks env i n s) \<Longrightarrow>
   run_loop hooks env i s = Some (passes hooks env i n s)"
proof (induction n arbitrary: i s)
  case 0
  then show ?case by (subst run_loop.simps) simp
next
  case (Suc n)
  let ?next = "main_loop hooks (fst (env i)) (snd (env i)) s"
  from Suc.prems(1) have run: "is_running s" by (auto dest: spec [of _ 0])
  have "\<forall>k<n. is_running (passes hooks env (Suc i) k ?next)"
  proof (intro allI impI)
    fix k assume "k < n"
    then have "Suc k < Suc n" by simp
    with Suc.prems(1) have "is_running (passes hooks env i (Suc k) s)" by blast
    then show "is_running (passes hooks env (Suc i) k ?next)" by simp
  qed
  moreover have "\<not> is_running (passes hooks env (Suc i) n ?next)"
    using Suc.prems(2) by simp
  ultimately have "run_loop hooks env (Suc i) ?next = Some (passes hooks env (Suc i) n ?next)"
    by (rule Suc.IH)
  with run show ?case by (subst run_loop.simps) simp
qed

lemma run_loop_None:
  assumes "\<forall>k. is_running (passes hooks env i k s)"
  shows "run_loop hooks env i s = None"
proof (cases "run_loop hooks env i s")
  case None
  then show ?thesis .
next
  case (Some y)
  from run_loop_Some [OF this] assms show ?thesis by auto
qed

lemma event_get_size_none:
  "\<forall>w h. WINDOWRESIZED w h \<notin> set es \<Longrightarrow> event_get es d = d"
  by (induction es d rule: event_get.induct) auto

lemma loop_body_sizes_agree:
  "sizes_agree s \<Longrightarrow> sizes_agree (loop_body hooks e s)"
  by (cases e)
     (simp_all add: loop_body_def Let_def run_hook_sizes sizes_agree_def new_background_def
        size_of_app_def set_window_resolution_def get_size_def)

lemma loop_body_resized:
  "sizes_agree (loop_body hooks (WINDOWRESIZED w h) s)"
  by (simp add: loop_body_def Let_def sizes_agree_def new_background_def
        size_of_app_def set_window_resolution_def get_size_def)

lemma for_each_event_sizes_agree:
  "sizes_agree s \<Longrightarrow> sizes_agree (for_each_event hooks es s)"
  by (induction es arbitrary: s) (simp_all add: loop_body_sizes_agree)

lemma for_each_event_resized:
  "WINDOWRESIZED w h \<in> set es \<Longrightarrow> sizes_agree (for_each_event hooks es s)"
proof (induction es arbitrary: s)
  case Nil
  then show ?case by simp
next
  case (Cons e es)
  show ?case
  proof (cases "WINDOWRESIZED w h \<in> set es")
    case True
    then show ?thesis using Cons.IH by simp
  next
    case False
    with Cons.prems have "e = WINDOWRESIZED w h" by simp
    then show ?thesis
      using for_each_event_sizes_agree [OF loop_body_resized, of hooks es hooks w h s] by simp
  qed
qed

lemma main_loop_sizes_agree:
  assumes "sizes_agree s"
  shows "sizes_agree (main_loop hooks ticks es s)"
proof -
  let ?s1 = "s\<lparr>root_window_surface := event_get es (root_window_surface s)\<rparr>"
  have drained: "sizes_agree (for_each_event hooks es ?s1)"
  proof (cases "\<exists>w h. WINDOWRESIZED w h \<in> set es")
    case True
    then show ?thesis using for_each_event_resized by blast
  next
    case False
    then have "?s1 = s" by (simp add: event_get_size_none)
    then show ?thesis using assms for_each_event_sizes_agree by metis
  qed
  show ?thesis
  proof (cases "is_running (for_each_event hooks es ?s1)")
    case False
    then show ?thesis using drained by (simp add: main_loop_def Let_def)
  next
    case True
    then show ?thesis
      using drained
      by (simp add: main_loop_def Let_def sizes_agree_def get_size_def run_hook_sizes)
  qed
qed

lemma passes_sizes_agree:
  "sizes_agree s \<Longrightarrow> sizes_agree (passes hooks env i n s)"
  by (induction n arbitrary: i s) (simp_all add: main_loop_sizes_agree)

lemma run_sizes_agree:
  assumes "sizes_agree s" "run hooks env s = Some s'"
  shows "sizes_agree s'"
proof (cases "is_running s")
  case True
  with assms show ?thesis by (simp add: run_def)
next
  case False
  with assms(2) have "run_loop hooks env 0 (s\<lparr>is_running := True\<rparr>) = Some s'"
    by (simp add: run_def)
  from run_loop_Some [OF this] obtain n where
    "s' = passes hooks env 0 n (s\<lparr>is_running := True\<rparr>)" by blast
  moreover have "sizes_agree (s\<lparr>is_running := True\<rparr>)"
    using assms(1) by (simp add: sizes_agree_def)
  ultimately show ?thesis using passes_sizes_agree by blast
qed

text \<open>
  An environment for trying the loop: passes that find no event keep the application
  running, and a pass that finds a close event stops it.
\<close>

lemma idle_pass_running:
  "is_running s \<Longrightarrow> is_running (main_loop base_hooks ticks [] s)"
  by (simp add: main_loop_def Let_def run_hook_def base_hooks_def)

lemma idle_passes_running:
  "is_running s \<Longrightarrow> is_running (passes base_hooks (\<lambda>i. (16, [])) i k s)"
  by (induction k arbitrary: i s) (simp_all add: idle_pass_running)

lemma quit_pass_stops:
  "\<not> is_running (main_loop base_hooks ticks [QUIT] s)"
  by (simp add: main_loop_def Let_def loop_body_def)

lemma example_passes:
  assumes "is_running s"
  shows "\<forall>k<3. is_running (passes base_hooks (\<lambda>i. (16, if i = 2 then [QUIT] else [])) 0 k s)"
    and "\<not> is_running (passes base_hooks (\<lambda>i. (16, if i = 2 then [QUIT] else [])) 0 3 s)"
proof -
  let ?env = "\<lambda>i::nat. (16::nat, if i = 2 then [QUIT] else [])"
  have p0: "is_running (passes base_hooks ?env 0 0 s)" using assms by simp
  have p1: "is_running (passes base_hooks ?env 0 1 s)"
    using assms by (simp add: idle_pass_running)
  have p2: "is_running (passes base_hooks ?env 0 2 s)"
    using assms by (simp add: idle_pass_running numeral_2_eq_2)
  show "\<forall>k<3. is_running (passes base_hooks ?env 0 k s)"
  proof (intro allI impI)
    fix k :: nat assume "k < 3"
    then have "k = 0 \<or> k = 1 \<or> k = 2" by arith
    with p0 p1 p2 show "is_running (passes base_hooks ?env 0 k s)" by blast
  qed
  show "\<not> is_running (passes base_hooks ?env 0 3 s)"
    by (simp add: numeral_3_eq_3 quit_pass_stops)
qed

text \<open>
  Claim C8: the background surface and the widget manager's resolution have the size of
  the window's surface after construction, and every operation keeps it so: registering an
  object, a pass of the main loop (with or without a resize among its events), and
  \<^verbatim>\<open>run\<close> when it returns.
\<close>

theorem sizes_agree_invariant:
  "sizes_agree (GuiApp_init d ws fr ti rs u) \<and>
   (sizes_agree self \<longrightarrow>
      sizes_agree (add_update_object obj self) \<and>
      sizes_agree (main_loop hooks ticks events self) \<and>
      (\<forall>self'. run hooks env self = Some self' \<longrightarrow> sizes_agree self'))"
proof -
  have "sizes_agree (GuiApp_init d ws fr ti rs u)"
    by (simp add: GuiApp_init_def Let_def sizes_agree_def new_background_def size_of_app_def
        UIManager_def get_size_def)
  moreover have "sizes_agree self \<Longrightarrow> sizes_agree (add_update_object obj self)"
    by (simp add: add_update_object_def sizes_agree_def)
  ultimately show ?thesis
    using main_loop_sizes_agree [of self hooks ticks events] run_sizes_agree [of self hooks env]
    by blast
qed

theorem sizes_agree_invariant_witness:
  "sizes_agree (GuiApp_init (1920, 1080) (640, 480) 60 None True ()) \<and>
   sizes_agree (add_update_object 1 (GuiApp_init (1920, 1080) (640, 480) 60 None True ())) \<and>
   sizes_agree (main_loop base_hooks 16 [WINDOWRESIZED 800 600]
     (GuiApp_init (1920, 1080) (640, 480) 60 None True ())) \<and>
   get_size (background_surface (main_loop base_hooks 16 [WINDOWRESIZED 800 600]
     (GuiApp_init (1920, 1080) (640, 480) 60 None True ()))) = (800, 600) \<and>
   run base_hooks (\<lambda>i. (16, if i = 2 then [QUIT] else []))
       (GuiApp_init (1920, 1080) (640, 480) 60 None True ()) =
     Some (passes base_hooks (\<lambda>i. (16, if i = 2 then [QUIT] else [])) 0 3
       ((GuiApp_init (1920, 1080) (640, 480) 60 None True ())\<lparr>is_running := True\<rparr>)) \<and>
   sizes_agree (passes base_hooks (\<lambda>i. (16, if i = 2 then [QUIT] else [])) 0 3
       ((GuiApp_init (1920, 1080) (640, 480) 60 None True ())\<lparr>is_running := True\<rparr>))"
proof -
  let ?app = "GuiApp_init (1920, 1080) (640, 480) 60 None True ()"
  let ?env = "\<lambda>i::nat. (16::nat, if i = 2 then [QUIT] else [])"
  note t = sizes_agree_invariant [where d = "(1920, 1080)" and ws = "(640, 480)" and fr = 60
      and ti = None and rs = True and u = "()" and self = ?app and obj = 1
      and hooks = base_hooks and ticks = 16 and events = "[WINDOWRESIZED 800 600]"
      and env = ?env]
  from t have 0: "sizes_agree ?app" by blast
  have on: "is_running (?app\<lparr>is_running := True\<rparr>)" by simp
  have "run_loop base_hooks ?env 0 (?app\<lparr>is_running := True\<rparr>) =
      Some (passes base_hooks ?env 0 3 (?app\<lparr>is_running := True\<rparr>))"
    using example_passes [OF on] by (rule run_loop_passes)
  then have r: "run base_hooks ?env ?app =
      Some (passes base_hooks ?env 0 3 (?app\<lparr>is_running := True\<rparr>))"
    by (simp add: run_def GuiApp_init_def Let_def)
  have bg: "get_size (background_surface (main_loop base_hooks 16 [WINDOWRESIZED 800 600] ?app)) =
      (800, 600)"
    by (simp add: main_loop_def Let_def loop_body_def GuiApp_init_def new_background_def
        set_window_resolution_def size_of_app_def get_size_def)
  from t 0 r bg show ?thesis by blast
qed

text \<open>
  Claim C10: \<^verbatim>\<open>run\<close> on an application whose running flag is set returns at once and
  leaves the application as it is; otherwise it sets the flag and repeats the main loop
  until a pass leaves the flag cleared, returning the application of that moment, and it
  does not return when no pass ever clears the flag.
\<close>

theorem run_returns_or_iterates:
  "(is_running self \<longrightarrow> run hooks env self = Some self) \<and>
   (\<not> is_running self \<and>
    (\<forall>k<n. is_running (passes hooks env 0 k (self\<lparr>is_running := True\<rparr>))) \<and>
    \<not> is_running (passes hooks env 0 n (self\<lparr>is_running := True\<rparr>)) \<longrightarrow>
      run hooks env self = Some (passes hooks env 0 n (self\<lparr>is_running := True\<rparr>))) \<and>
   (\<not> is_running self \<and>
    (\<forall>k. is_running (passes hooks env 0 k (self\<lparr>is_running := True\<rparr>))) \<longrightarrow>
      run hooks env self = None)"
  using run_loop_passes [of n hooks env 0 "self\<lparr>is_running := True\<rparr>"]
    run_loop_None [of hooks env 0 "self\<lparr>is_running := True\<rparr>"]
  by (simp add: run_def)

theorem run_returns_or_iterates_witness:
  "run base_hooks (\<lambda>i. (16, if i = 2 then [QUIT] else []))
       ((GuiApp_init (1920, 1080) (640, 480) 60 None True ())\<lparr>is_running := True\<rparr>) =
     Some ((GuiApp_init (1920, 1080) (640, 480) 60 None True ())\<lparr>is_running := True\<rparr>) \<and>
   run base_hooks (\<lambda>i. (16, if i = 2 then [QUIT] else []))
       (GuiApp_init (1920, 1080) (640, 480) 60 None True ()) =
     Some (passes base_hooks (\<lambda>i. (16, if i = 2 then [QUIT] else [])) 0 3
       ((GuiApp_init (1920, 1080) (640, 480) 60 None True ())\<lparr>is_running := True\<rparr>)) \<and>
   run base_hooks (\<lambda>i. (16, [])) (GuiApp_init (1920, 1080) (640, 480) 60 None True ()) = None"
proof -
  let ?app = "GuiApp_init (1920, 1080) (640, 480) 60 None True ()"
  let ?env = "\<lambda>i::nat. (16::nat, if i = 2 then [QUIT] else [])"
  have off: "\<not> is_running ?app" by (simp add: GuiApp_init_def Let_def)
  have on: "is_running (?app\<lparr>is_running := True\<rparr>)" by simp
  note a = run_returns_or_iterates [where hooks = base_hooks and env = ?env and n = 3
      and self = "?app\<lparr>is_running := True\<rparr>"]
  note b = run_returns_or_iterates [where hooks = base_hooks and env = ?env and n = 3
      and self = ?app]
  note c = run_returns_or_iterates [where hooks = base_hooks and env = "\<lambda>i. (16, [])" and n = 0
      and self = ?app]
  from a on have 1: "run base_hooks ?env (?app\<lparr>is_running := True\<rparr>) =
      Some (?app\<lparr>is_running := True\<rparr>)" by blast
  from b off example_passes [OF on]
  have 2: "run base_hooks ?env ?app =
      Some (passes base_hooks ?env 0 3 (?app\<lparr>is_running := True\<rparr>))" by blast
  have "\<forall>k. is_running (passes base_hooks (\<lambda>i. (16, [])) 0 k (?app\<lparr>is_running := True\<rparr>))"
    using idle_passes_running [OF on] by blast
  with c off have 3: "run base_hooks (\<lambda>i. (16, [])) ?app = None" by blast
  from 1 2 3 show ?thesis by blast
qed

end
